theory Spec2Isabelle
  imports Main
begin

section \<open>Data model of the form controller (templates/script.js)\<close>

text \<open>
  The script is a browser-side controller: event handlers that read and write a handful of
  page elements, the module variable \<open>generatedProblems\<close>, and the network through
  \<open>fetch\<close>. The page elements the handlers touch are the fields of the record \<open>ui\<close>;
  every handler is a function from the state before to the state after, together with how
  the handler ended (it returned, or an exception left it and became the rejection of the
  handler's promise).
\<close>

subsection \<open>Values exchanged with the server\<close>

text \<open>A problem draft: the four properties the script reads from an item of the batch.\<close>

record problem =
  title :: string
  topic :: string
  readme :: string
  solution :: string

text \<open>
  What \<open>response.json()\<close> of \<open>/generate\<close> can yield: an array of drafts, or an object
  with a \<open>message\<close> property (the script reads \<open>result.message\<close> on this endpoint).
\<close>

datatype generate_json = ProblemArray "problem list" | MessageObject string

text \<open>The JSON object answered by \<open>/commit\<close> and \<open>/delete\<close>.\<close>

record message_json =
  message :: string

text \<open>
  The outcome of one \<open>await fetch(...)\<close>: the promise rejects (network failure), or it
  resolves with a response, given by whether its status is 2xx and by its body read as
  JSON (\<open>None\<close> when the body is not JSON).
\<close>

datatype 'b fetch_outcome = Rejected | Resolved bool "'b option"

text \<open>The Response object: \<open>bodyUsed\<close> records that the body stream has been read.\<close>

record 'b response =
  ok :: bool
  payload :: "'b option"
  bodyUsed :: bool

datatype js_error = FetchFailed | BodyAlreadyRead | InvalidJson

text \<open>How a handler ends: it returns, or an exception leaves it uncaught.\<close>

datatype completion = Returned | Threw js_error

text \<open>
  \<open>response.json()\<close>: a body that was already read rejects with a TypeError; otherwise
  the body is consumed and parsed.
\<close>

definition response_json :: "'b response \<Rightarrow> (js_error + 'b) \<times> 'b response" where
  "response_json r =
     (if bodyUsed r then (Inl BodyAlreadyRead, r)
      else (case payload r of
              None \<Rightarrow> (Inl InvalidJson, r\<lparr>bodyUsed := True\<rparr>)
            | Some v \<Rightarrow> (Inr v, r\<lparr>bodyUsed := True\<rparr>)))"

subsection \<open>JavaScript reads on the generate payload\<close>

text \<open>\<open>v && v.length > 0\<close>: an object has no \<open>length\<close>, and \<open>undefined > 0\<close> is false.\<close>

fun nonempty_array :: "generate_json \<Rightarrow> bool" where
  "nonempty_array (ProblemArray ps) = (length ps > 0)"
| "nonempty_array (MessageObject m) = False"

text \<open>\<open>v[i]\<close>: \<open>undefined\<close> (here \<open>None\<close>) past the end of an array and on the object.\<close>

fun js_index :: "generate_json \<Rightarrow> nat \<Rightarrow> problem option" where
  "js_index (ProblemArray ps) i = (if i < length ps then Some (ps ! i) else None)"
| "js_index (MessageObject m) i = None"

text \<open>The items \<open>v.forEach\<close> visits, in order (it is only called on an array).\<close>

fun array_items :: "generate_json \<Rightarrow> problem list" where
  "array_items (ProblemArray ps) = ps"
| "array_items (MessageObject m) = []"

text \<open>\<open>v.message\<close>: an array has no such property.\<close>

fun js_message :: "generate_json \<Rightarrow> string option" where
  "js_message (ProblemArray ps) = None"
| "js_message (MessageObject m) = Some m"

text \<open>\<open>a || b\<close> on a possibly undefined string: the empty string is falsy.\<close>

fun js_or :: "string option \<Rightarrow> string \<Rightarrow> string" where
  "js_or None d = d"
| "js_or (Some a) d = (if a \<noteq> [] then a else d)"

text \<open>The decimal numeral of a number, as a template literal prints it.\<close>

fun string_of_nat :: "nat \<Rightarrow> string" where
  "string_of_nat n =
     (if n < 10 then [''0123456789'' ! n]
      else string_of_nat (n div 10) @ [''0123456789'' ! (n mod 10)])"

declare string_of_nat.simps [simp del]

subsection \<open>The page\<close>

text \<open>
  Modelled from the spec: the page's markup is not part of the sources. Following the spec,
  the commit form is the review form, and it submits the title, topic, belt, readme and
  solution fields; they are named here by the element ids the script writes to, and are text
  controls that hold the string assigned to them.
\<close>

record review_form =
  problem_title :: string
  verify_topic :: string
  verify_belt :: string
  readme_content :: string
  solution_content :: string

text \<open>
  Modelled from the spec: the delete form's markup is not part of the sources. Following
  the spec, \<open>new FormData(deleteForm)\<close> collects a belt and a problem entry: the belt
  selector's value and, unless the control is disabled (a disabled control is left out of a
  form's data), the chosen problem folder.
\<close>

record delete_data =
  del_belt :: string
  del_problem :: "string option"

text \<open>The requests the script sends, with what each carries.\<close>

datatype request =
    PostGenerate "(string \<times> string) list"
  | PostCommit review_form
  | GetProblems string
  | PostDelete delete_data

text \<open>
  The state the handlers read and write. An element hidden by the class \<open>hidden\<close> has its
  flag set; \<open>aria-busy\<close> of the three submit buttons are the busy flags; a selector is its
  list of options (text, value); the status container is the list of its messages (text,
  kind). \<open>problemOptions\<close> keeps an option's value as the index it was built from (the
  page stores its decimal numeral, and the array is read with it at that index).
  \<open>generateFields\<close> are the name/value entries of the generate form, \<open>reviewDefaults\<close>
  the values a reset of the commit form restores, and \<open>requests\<close> the log of every
  request sent so far, oldest first.
\<close>

record ui =
  generatedProblems :: generate_json
  loaderHidden :: bool
  verificationHidden :: bool
  selectorContainerHidden :: bool
  statusMessages :: "(string \<times> string) list"
  generateBusy :: bool
  commitBusy :: bool
  deleteBusy :: bool
  generateFields :: "(string \<times> string) list"
  problemOptions :: "(string \<times> nat) list"
  review :: review_form
  reviewDefaults :: review_form
  deleteBelt :: string
  deleteProblemOptions :: "(string \<times> string) list"
  deleteProblemValue :: string
  deleteProblemDisabled :: bool
  deleteBtnDisabled :: bool
  requests :: "request list"

section \<open>Functions of the script\<close>

text \<open>
  \<open>populateVerificationForm\<close> (lines 28-35): \<open>if (!problem) return;\<close> leaves when the
  index yields \<open>undefined\<close>; a draft is an object and so truthy.
\<close>

definition populateVerificationForm :: "nat \<Rightarrow> ui \<Rightarrow> ui" where
  "populateVerificationForm problemIndex s =
     (case js_index (generatedProblems s) problemIndex of
        None \<Rightarrow> s
      | Some p \<Rightarrow>
          s\<lparr>review := (review s)\<lparr>problem_title := title p, verify_topic := topic p,
                                  readme_content := readme p, solution_content := solution p\<rparr>\<rparr>)"

text \<open>
  \<open>displayMessage\<close> (lines 62-68) appends a message element of the given kind to the status
  container. The timer that removes it later is outside this model.
\<close>

definition displayMessage :: "string \<Rightarrow> string \<Rightarrow> ui \<Rightarrow> ui" where
  "displayMessage msg kind s = s\<lparr>statusMessages := statusMessages s @ [(msg, kind)]\<rparr>"

text \<open>
  \<open>fetchProblemsForBelt\<close> (lines 37-56), in the two parts its \<open>await fetch\<close> separates:
  what runs up to the request, and what runs when the request has an outcome.
\<close>

definition fetchProblemsForBelt_start :: "string \<Rightarrow> ui \<Rightarrow> ui" where
  "fetchProblemsForBelt_start beltName s =
     s\<lparr>deleteProblemOptions := [(''Loading...'', '''')],
       deleteProblemValue := '''',
       deleteProblemDisabled := True,
       deleteBtnDisabled := True,
       requests := requests s @ [GetProblems beltName]\<rparr>"

definition fetchProblemsForBelt_resume :: "string list fetch_outcome \<Rightarrow> ui \<Rightarrow> completion \<times> ui" where
  "fetchProblemsForBelt_resume fo s =
     (case fo of
        Rejected \<Rightarrow> (Threw FetchFailed, s)
      | Resolved status body \<Rightarrow>
          (let response = \<lparr>ok = status, payload = body, bodyUsed = False\<rparr> in
           if ok response then
             (case response_json response of
                (Inl e, _) \<Rightarrow> (Threw e, s)
              | (Inr problems, _) \<Rightarrow>
                  (let s1 = s\<lparr>deleteProblemOptions := [], deleteProblemValue := ''''\<rparr> in
                   if length problems > 0 then
                     (Returned,
                      s1\<lparr>deleteProblemOptions :=
                            (''-- Select a problem --'', '''') # map (\<lambda>p. (p, p)) problems,
                         deleteProblemDisabled := False,
                         deleteBtnDisabled := False\<rparr>)
                   else
                     (Returned, s1\<lparr>deleteProblemOptions := [(''-- No problems found --'', '''')]\<rparr>)))
           else
             (Returned,
              s\<lparr>deleteProblemOptions := [(''-- Error loading --'', '''')],
                deleteProblemValue := ''''\<rparr>)))"

definition fetchProblemsForBelt :: "string \<Rightarrow> string list fetch_outcome \<Rightarrow> ui \<Rightarrow> completion \<times> ui" where
  "fetchProblemsForBelt beltName fo s =
     fetchProblemsForBelt_resume fo (fetchProblemsForBelt_start beltName s)"

text \<open>
  Two calls that overlap. Nothing in the script makes a call wait for the one before it
  (the belt selector stays usable while a request is pending), so a second call can send
  its request before the first is answered; the answers are then processed one after the
  other, here the first call's and then the second's.
\<close>

definition fetchProblemsForBelt_overlapped ::
  "string \<Rightarrow> string \<Rightarrow> string list fetch_outcome \<Rightarrow> string list fetch_outcome \<Rightarrow> ui \<Rightarrow> ui" where
  "fetchProblemsForBelt_overlapped beltA beltB foA foB s =
     (let s1 = fetchProblemsForBelt_start beltA s;
          s2 = fetchProblemsForBelt_start beltB s1;
          s3 = snd (fetchProblemsForBelt_resume foA s2)
      in snd (fetchProblemsForBelt_resume foB s3))"

section \<open>Event listeners\<close>

text \<open>The change listener of the problem selector (line 72).\<close>

definition problemSelector_change :: "nat \<Rightarrow> ui \<Rightarrow> ui" where
  "problemSelector_change v s = populateVerificationForm v s"

subsection \<open>Submitting the generate form (lines 74-99)\<close>

text \<open>The label of the option built for item \<open>i\<close>: \<open>p.title || `Problem ${i + 1}`\<close>.\<close>

definition option_label :: "problem \<Rightarrow> nat \<Rightarrow> string" where
  "option_label p i = js_or (Some (title p)) (''Problem '' @ string_of_nat (i + 1))"

text \<open>\<open>formData.get('belt')\<close> assigned to a field: \<open>null\<close> (no such entry) shows as empty.\<close>

definition formData_get :: "(string \<times> string) list \<Rightarrow> string \<Rightarrow> string" where
  "formData_get formData name = (case map_of formData name of None \<Rightarrow> '''' | Some v \<Rightarrow> v)"

definition generateSubmit_start :: "ui \<Rightarrow> ui" where
  "generateSubmit_start s =
     s\<lparr>loaderHidden := False,
       verificationHidden := True,
       selectorContainerHidden := True,
       statusMessages := [],
       generateBusy := True,
       requests := requests s @ [PostGenerate (generateFields s)]\<rparr>"

definition generateSubmit_resume ::
  "(string \<times> string) list \<Rightarrow> generate_json fetch_outcome \<Rightarrow> ui \<Rightarrow> completion \<times> ui" where
  "generateSubmit_resume formData fo s =
     (case fo of
        Rejected \<Rightarrow> (Threw FetchFailed, s)
      | Resolved status body \<Rightarrow>
          (let response = \<lparr>ok = status, payload = body, bodyUsed = False\<rparr>;
               s1 = s\<lparr>loaderHidden := True, generateBusy := False\<rparr> in
           if ok response then
             (case response_json response of
                (Inl e, _) \<Rightarrow> (Threw e, s1)
              | (Inr v, response1) \<Rightarrow>
                  (let s2 = s1\<lparr>generatedProblems := v\<rparr> in
                   if nonempty_array (generatedProblems s2) then
                     (Returned,
                      populateVerificationForm 0
                        (s2\<lparr>problemOptions :=
                               map (\<lambda>(i, p). (option_label p i, i))
                                 (enumerate 0 (array_items (generatedProblems s2))),
                            selectorContainerHidden := False,
                            verificationHidden := False,
                            review := (review s2)\<lparr>verify_belt := formData_get formData ''belt''\<rparr>\<rparr>))
                   else
                     (case response_json response1 of
                        (Inl e, _) \<Rightarrow> (Threw e, s2)
                      | (Inr result, _) \<Rightarrow>
                          (Returned,
                           displayMessage (js_or (js_message result) ''AI generated no problems.'')
                             ''error'' s2))))
           else
             (Returned,
              displayMessage ''Error generating problems. Check server console.'' ''error'' s1)))"

definition generateSubmit :: "generate_json fetch_outcome \<Rightarrow> ui \<Rightarrow> completion \<times> ui" where
  "generateSubmit fo s = generateSubmit_resume (generateFields s) fo (generateSubmit_start s)"

subsection \<open>Submitting the commit form (lines 101-114)\<close>

definition commitSubmit_start :: "ui \<Rightarrow> ui" where
  "commitSubmit_start s =
     s\<lparr>commitBusy := True, requests := requests s @ [PostCommit (review s)]\<rparr>"

definition commitSubmit_resume :: "message_json fetch_outcome \<Rightarrow> ui \<Rightarrow> completion \<times> ui" where
  "commitSubmit_resume fo s =
     (case fo of
        Rejected \<Rightarrow> (Threw FetchFailed, s)
      | Resolved status body \<Rightarrow>
          (let response = \<lparr>ok = status, payload = body, bodyUsed = False\<rparr>;
               s1 = s\<lparr>commitBusy := False\<rparr> in
           case response_json response of
             (Inl e, _) \<Rightarrow> (Threw e, s1)
           | (Inr result, _) \<Rightarrow>
               if ok response then
                 (Returned,
                  (displayMessage (message result) ''success'' s1)
                    \<lparr>verificationHidden := True,
                     selectorContainerHidden := True,
                     review := reviewDefaults s1\<rparr>)
               else (Returned, displayMessage (message result) ''error'' s1)))"

definition commitSubmit :: "message_json fetch_outcome \<Rightarrow> ui \<Rightarrow> completion \<times> ui" where
  "commitSubmit fo s = commitSubmit_resume fo (commitSubmit_start s)"

subsection \<open>The delete tab (lines 116-133)\<close>

text \<open>
  The change listener of the belt selector; \<open>selectedBelt\<close> is \<open>e.target.value\<close>. The call
  is not awaited: the listener ends when \<open>fetchProblemsForBelt\<close> has sent its request.
\<close>

definition deleteBeltSelector_change :: "string \<Rightarrow> ui \<Rightarrow> ui" where
  "deleteBeltSelector_change selectedBelt s =
     (if selectedBelt \<noteq> [] then fetchProblemsForBelt_start selectedBelt s else s)"

definition deleteFormData :: "ui \<Rightarrow> delete_data" where
  "deleteFormData s =
     \<lparr>del_belt = deleteBelt s,
      del_problem = (if deleteProblemDisabled s then None else Some (deleteProblemValue s))\<rparr>"

definition deleteSubmit_start :: "ui \<Rightarrow> ui" where
  "deleteSubmit_start s =
     s\<lparr>deleteBusy := True, requests := requests s @ [PostDelete (deleteFormData s)]\<rparr>"

text \<open>
  On success the refresh \<open>fetchProblemsForBelt(deleteBeltSelector.value)\<close> is started and
  not awaited: the handler ends with the refresh request sent and its answer pending.
\<close>

definition deleteSubmit_resume :: "message_json fetch_outcome \<Rightarrow> ui \<Rightarrow> completion \<times> ui" where
  "deleteSubmit_resume fo s =
     (case fo of
        Rejected \<Rightarrow> (Threw FetchFailed, s)
      | Resolved status body \<Rightarrow>
          (let response = \<lparr>ok = status, payload = body, bodyUsed = False\<rparr>;
               s1 = s\<lparr>deleteBusy := False\<rparr> in
           case response_json response of
             (Inl e, _) \<Rightarrow> (Threw e, s1)
           | (Inr result, _) \<Rightarrow>
               if ok response then
                 (let s2 = displayMessage (message result) ''success'' s1 in
                  (Returned, fetchProblemsForBelt_start (deleteBelt s2) s2))
               else (Returned, displayMessage (message result) ''error'' s1)))"

text \<open>\<open>confirmed\<close> is the user's answer to the \<open>confirm\<close> dialog.\<close>

definition deleteSubmit :: "bool \<Rightarrow> message_json fetch_outcome \<Rightarrow> ui \<Rightarrow> completion \<times> ui" where
  "deleteSubmit confirmed fo s =
     (if \<not> confirmed then (Returned, s)
      else deleteSubmit_resume fo (deleteSubmit_start s))"

subsection \<open>A page state for the closed examples\<close>

definition blank_form :: review_form where
  "blank_form = \<lparr>problem_title = '''', verify_topic = '''', verify_belt = '''',
                 readme_content = '''', solution_content = ''''\<rparr>"

definition sample_ui :: ui where
  "sample_ui =
     \<lparr>generatedProblems = ProblemArray [],
      loaderHidden = True,
      verificationHidden = True,
      selectorContainerHidden = True,
      statusMessages = [],
      generateBusy = False,
      commitBusy = False,
      deleteBusy = False,
      generateFields = [(''belt'', ''white'')],
      problemOptions = [],
      review = blank_form,
      reviewDefaults = blank_form,
      deleteBelt = '''',
      deleteProblemOptions = [],
      deleteProblemValue = '''',
      deleteProblemDisabled = True,
      deleteBtnDisabled = True,
      requests = []\<rparr>"

text \<open>A batch of two drafts, the second without a title.\<close>

definition sample_drafts :: "problem list" where
  "sample_drafts =
     [\<lparr>title = ''Two Sum'', topic = ''arrays'', readme = ''# Two Sum'', solution = ''pass''\<rparr>,
      \<lparr>title = '''', topic = ''graphs'', readme = ''# BFS'', solution = ''todo''\<rparr>]"

text \<open>The page with that batch under review, the first draft edited by the user.\<close>

definition sample_review_ui :: ui where
  "sample_review_ui =
     sample_ui\<lparr>generatedProblems := ProblemArray sample_drafts,
               verificationHidden := False,
               selectorContainerHidden := False,
               problemOptions := [(''Two Sum'', 0), (''Problem 2'', 1)],
               review := \<lparr>problem_title = ''Two Sum (edited)'', verify_topic = ''arrays'',
                          verify_belt = ''white'', readme_content = ''# Two Sum'',
                          solution_content = ''pass''\<rparr>\<rparr>"

text \<open>The delete tab with belt \<open>white\<close> loaded and the folder \<open>p1\<close> chosen.\<close>

definition sample_delete_ui :: ui where
  "sample_delete_ui =
     sample_ui\<lparr>deleteBelt := ''white'',
               deleteProblemOptions :=
                 [(''-- Select a problem --'', ''''), (''p1'', ''p1''), (''p2'', ''p2'')],
               deleteProblemValue := ''p1'',
               deleteProblemDisabled := False,
               deleteBtnDisabled := False\<rparr>"

section \<open>Properties\<close>

lemmas generate_defs =
  generateSubmit_def generateSubmit_start_def generateSubmit_resume_def
  response_json_def displayMessage_def Let_def

lemmas commit_defs =
  commitSubmit_def commitSubmit_start_def commitSubmit_resume_def
  response_json_def displayMessage_def Let_def

lemmas delete_defs =
  deleteSubmit_def deleteSubmit_start_def deleteSubmit_resume_def
  fetchProblemsForBelt_start_def response_json_def displayMessage_def Let_def

lemmas fetch_defs =
  fetchProblemsForBelt_def fetchProblemsForBelt_start_def fetchProblemsForBelt_resume_def
  response_json_def Let_def

subsection \<open>Generating\<close>

text \<open>
  C1, as amended. Whenever the generate request is answered, with a 2xx or a non-2xx
  status and whatever the body, the handler ends with the loading indicator hidden and the
  submit button's busy flag cleared, and a non-2xx answer becomes the generic status
  message. A network failure (the fetch rejects) is not caught: the handler ends with that
  rejection exactly in the state it had when it sent the request, with the loading
  indicator shown, the busy flag set and no status message.
\<close>

theorem generateSubmit_cleanup:
  "loaderHidden (snd (generateSubmit (Resolved status body) s)) \<and>
   generateBusy (snd (generateSubmit (Resolved status body) s)) = False \<and>
   generateSubmit (Resolved False body) s =
     (Returned,
      displayMessage ''Error generating problems. Check server console.'' ''error''
        ((generateSubmit_start s)\<lparr>loaderHidden := True, generateBusy := False\<rparr>)) \<and>
   generateSubmit Rejected s = (Threw FetchFailed, generateSubmit_start s) \<and>
   loaderHidden (generateSubmit_start s) = False \<and>
   generateBusy (generateSubmit_start s) \<and>
   statusMessages (generateSubmit_start s) = []"
  by (simp add: generate_defs populateVerificationForm_def split: option.split)

text \<open>
  C1 as stated fails when the fetch rejects: on the sample page it is not the case that the
  loading indicator is hidden, the busy flag cleared, the handler returned normally and a
  status message shown.
\<close>

theorem generateSubmit_rejected_counterexample:
  "\<not> (loaderHidden (snd (generateSubmit Rejected sample_ui)) \<and>
      \<not> generateBusy (snd (generateSubmit Rejected sample_ui)) \<and>
      fst (generateSubmit Rejected sample_ui) = Returned \<and>
      statusMessages (snd (generateSubmit Rejected sample_ui)) \<noteq> [])"
  by (simp add: generate_defs sample_ui_def)

text \<open>
  C2, what the code does where the claim expects the structured message. A 2xx answer
  carrying the empty list (or an object with a message) is stored in \<open>generatedProblems\<close>,
  the handler takes the branch for "no problems" and reads the body of the same response
  a second time; that read rejects, so the handler ends with an uncaught error and the
  status container stays empty: neither the server's text nor "AI generated no problems."
  is displayed. The review section and the selector stay hidden. A non-2xx answer does
  produce the generic message, with both sections hidden.
\<close>

theorem generateSubmit_empty_list:
  "generateSubmit (Resolved True (Some (ProblemArray []))) s =
     (Threw BodyAlreadyRead,
      (generateSubmit_start s)\<lparr>loaderHidden := True, generateBusy := False,
                                generatedProblems := ProblemArray []\<rparr>) \<and>
   statusMessages (snd (generateSubmit (Resolved True (Some (ProblemArray []))) s)) = [] \<and>
   verificationHidden (snd (generateSubmit (Resolved True (Some (ProblemArray []))) s)) \<and>
   selectorContainerHidden (snd (generateSubmit (Resolved True (Some (ProblemArray []))) s)) \<and>
   fst (generateSubmit (Resolved True (Some (MessageObject m))) s) = Threw BodyAlreadyRead \<and>
   statusMessages (snd (generateSubmit (Resolved True (Some (MessageObject m))) s)) = [] \<and>
   statusMessages (snd (generateSubmit (Resolved False body) s)) =
     [(''Error generating problems. Check server console.'', ''error'')] \<and>
   verificationHidden (snd (generateSubmit (Resolved False body) s)) \<and>
   selectorContainerHidden (snd (generateSubmit (Resolved False body) s))"
  by (simp add: generate_defs)

text \<open>
  C3. When the answer is 2xx and carries \<open>N \<ge> 1\<close> drafts, the handler returns normally
  having replaced \<open>generatedProblems\<close> by the new batch; the problem selector has exactly
  \<open>N\<close> options, option \<open>i\<close> labelled with the title of item \<open>i\<close> or, when that is
  empty, \<open>Problem i+1\<close>, and valued \<open>i\<close>; the selector and the review section are
  revealed; the belt submitted with the form is in the review form's belt field; and the
  other review fields hold item 0's title, topic, readme and solution.
\<close>

theorem generateSubmit_populates:
  assumes "ps \<noteq> []"
    and "r = generateSubmit (Resolved True (Some (ProblemArray ps))) s"
  shows "fst r = Returned \<and>
         generatedProblems (snd r) = ProblemArray ps \<and>
         length (problemOptions (snd r)) = length ps \<and>
         (\<forall>i<length ps. problemOptions (snd r) ! i =
            (if title (ps ! i) \<noteq> [] then title (ps ! i)
             else ''Problem '' @ string_of_nat (i + 1), i)) \<and>
         selectorContainerHidden (snd r) = False \<and>
         verificationHidden (snd r) = False \<and>
         verify_belt (review (snd r)) = formData_get (generateFields s) ''belt'' \<and>
         problem_title (review (snd r)) = title (ps ! 0) \<and>
         verify_topic (review (snd r)) = topic (ps ! 0) \<and>
         readme_content (review (snd r)) = readme (ps ! 0) \<and>
         solution_content (review (snd r)) = solution (ps ! 0)"
  using assms
  by (simp add: generate_defs populateVerificationForm_def nth_enumerate_eq option_label_def)

theorem generateSubmit_populates_witness:
  "sample_drafts \<noteq> [] \<and>
   length (problemOptions (snd (generateSubmit (Resolved True (Some (ProblemArray sample_drafts)))
      sample_ui))) = 2 \<and>
   problemOptions (snd (generateSubmit (Resolved True (Some (ProblemArray sample_drafts)))
      sample_ui)) ! 0 = (''Two Sum'', 0) \<and>
   problemOptions (snd (generateSubmit (Resolved True (Some (ProblemArray sample_drafts)))
      sample_ui)) ! 1 = (''Problem 2'', 1) \<and>
   verify_belt (review (snd (generateSubmit (Resolved True (Some (ProblemArray sample_drafts)))
      sample_ui))) = ''white'' \<and>
   problem_title (review (snd (generateSubmit (Resolved True (Some (ProblemArray sample_drafts)))
      sample_ui))) = ''Two Sum''"
proof -
  have ne: "sample_drafts \<noteq> []"
    by (simp add: sample_drafts_def)
  show ?thesis
    using ne generateSubmit_populates [OF ne refl, of sample_ui]
    by (simp add: sample_drafts_def sample_ui_def formData_get_def string_of_nat.simps)
qed

subsection \<open>Reviewing\<close>

text \<open>
  C7. When the index resolves to an item of \<open>generatedProblems\<close> (the batch is an array
  and the index is below its length), \<open>populateVerificationForm\<close> copies that item's
  title, topic, readme and solution into the review fields and changes nothing else, and so
  does choosing that option in the problem selector; when the index does not resolve to an
  item (in particular at or past the length), the call returns the state as it was.
\<close>

theorem populateVerificationForm_copies:
  "(js_index (generatedProblems s) i = Some p \<longrightarrow>
      populateVerificationForm i s =
        s\<lparr>review := (review s)\<lparr>problem_title := title p, verify_topic := topic p,
                                readme_content := readme p, solution_content := solution p\<rparr>\<rparr>) \<and>
   (generatedProblems s = ProblemArray ps \<and> i < length ps \<longrightarrow>
      js_index (generatedProblems s) i = Some (ps ! i) \<and>
      problem_title (review (populateVerificationForm i s)) = title (ps ! i) \<and>
      verify_topic (review (populateVerificationForm i s)) = topic (ps ! i) \<and>
      readme_content (review (populateVerificationForm i s)) = readme (ps ! i) \<and>
      solution_content (review (populateVerificationForm i s)) = solution (ps ! i) \<and>
      problemSelector_change i s = populateVerificationForm i s) \<and>
   (generatedProblems s = ProblemArray ps \<and> length ps \<le> i \<longrightarrow>
      js_index (generatedProblems s) i = None) \<and>
   (js_index (generatedProblems s) i = None \<longrightarrow> populateVerificationForm i s = s)"
  by (simp add: populateVerificationForm_def problemSelector_change_def)

theorem populateVerificationForm_copies_witness:
  "readme_content (review (populateVerificationForm 1 sample_review_ui)) = ''# BFS'' \<and>
   problem_title (review (populateVerificationForm 1 sample_review_ui)) = '''' \<and>
   populateVerificationForm 2 sample_review_ui = sample_review_ui"
  using populateVerificationForm_copies [of sample_review_ui 1 undefined sample_drafts]
    populateVerificationForm_copies [of sample_review_ui 2 undefined sample_drafts]
  by (simp add: sample_review_ui_def sample_drafts_def)

subsection \<open>Committing\<close>

text \<open>
  C5. When the commit request is answered with a JSON body carrying a message: on a 2xx
  status the handler displays that message as a success, hides the review section and the
  problem selector and resets the commit form to its default values (all empty when the
  defaults are); on a non-2xx status it displays the message as an error and leaves
  everything else as it was before the submission, but for the busy flag being cleared
  and the request being logged: the review form, its values and the selector are untouched.
\<close>

theorem commitSubmit_outcomes:
  assumes "body = Some \<lparr>message = m\<rparr>"
  shows "fst (commitSubmit (Resolved True body) s) = Returned \<and>
         statusMessages (snd (commitSubmit (Resolved True body) s)) =
           statusMessages s @ [(m, ''success'')] \<and>
         verificationHidden (snd (commitSubmit (Resolved True body) s)) \<and>
         selectorContainerHidden (snd (commitSubmit (Resolved True body) s)) \<and>
         review (snd (commitSubmit (Resolved True body) s)) = reviewDefaults s \<and>
         (reviewDefaults s = blank_form \<longrightarrow>
            review (snd (commitSubmit (Resolved True body) s)) = blank_form) \<and>
         commitSubmit (Resolved False body) s =
           (Returned,
            s\<lparr>statusMessages := statusMessages s @ [(m, ''error'')],
              commitBusy := False,
              requests := requests s @ [PostCommit (review s)]\<rparr>)"
  using assms by (simp add: commit_defs)

theorem commitSubmit_outcomes_witness:
  "statusMessages (snd (commitSubmit (Resolved True (Some \<lparr>message = ''Committed.''\<rparr>))
      sample_review_ui)) = [(''Committed.'', ''success'')] \<and>
   review (snd (commitSubmit (Resolved True (Some \<lparr>message = ''Committed.''\<rparr>))
      sample_review_ui)) = blank_form \<and>
   verificationHidden (snd (commitSubmit (Resolved True (Some \<lparr>message = ''Committed.''\<rparr>))
      sample_review_ui)) \<and>
   problem_title (review (snd (commitSubmit (Resolved False (Some \<lparr>message = ''Commit failed.''\<rparr>))
      sample_review_ui))) = ''Two Sum (edited)'' \<and>
   verificationHidden (snd (commitSubmit (Resolved False (Some \<lparr>message = ''Commit failed.''\<rparr>))
      sample_review_ui)) = False"
  using commitSubmit_outcomes [OF refl, of "''Committed.''" sample_review_ui]
    commitSubmit_outcomes [OF refl, of "''Commit failed.''" sample_review_ui]
  by (simp add: sample_review_ui_def sample_ui_def)

text \<open>
  C9. Committing never writes into \<open>generatedProblems\<close>: whatever the review form holds
  and however the request ends (2xx, non-2xx, unreadable body, network failure), the batch
  after the handler is the batch before it, at the moment the request is sent and at the
  end; and the request that is sent carries the values the review form holds at
  submission.
\<close>

theorem commitSubmit_keeps_batch:
  "generatedProblems (snd (commitSubmit fo s)) = generatedProblems s \<and>
   generatedProblems (commitSubmit_start s) = generatedProblems s \<and>
   generatedProblems (snd (commitSubmit_resume fo s)) = generatedProblems s \<and>
   requests (snd (commitSubmit fo s)) = requests s @ [PostCommit (review s)]"
  by (cases fo) (simp_all add: commit_defs split: option.split)

subsection \<open>Deleting\<close>

text \<open>
  C4, as amended. Every call of \<open>fetchProblemsForBelt\<close> first shows the loading
  placeholder, disables the delete-problem selector and the delete button and sends one
  request for the belt. When its answer is ok with a non-empty list of \<open>N\<close> names, the
  selector ends with the placeholder followed by one option per name, \<open>N + 1\<close> options in
  all, and selector and button are enabled, from whatever state the answer finds. When its
  answer is ok with the empty list the selector shows the "No problems found" placeholder,
  and when it is not ok the "Error loading" placeholder; in both cases the call leaves the
  two disabled flags as the answer finds them. So a call enables a disabled selector or
  button only when its own answer is ok with at least one name, and for a call whose
  answer is processed right after its request was sent, with no other call's answer in
  between, selector and button remain disabled on an empty list and on an answer that is
  not ok, and the selector is enabled afterwards only if the belt has at least one
  reported problem.
\<close>

theorem fetchProblemsForBelt_outcomes:
  "deleteProblemOptions (fetchProblemsForBelt_start belt s) = [(''Loading...'', '''')] \<and>
   deleteProblemDisabled (fetchProblemsForBelt_start belt s) \<and>
   deleteBtnDisabled (fetchProblemsForBelt_start belt s) \<and>
   requests (fetchProblemsForBelt_start belt s) = requests s @ [GetProblems belt] \<and>
   (names \<noteq> [] \<longrightarrow>
      fst (fetchProblemsForBelt_resume (Resolved True (Some names)) t) = Returned \<and>
      deleteProblemOptions (snd (fetchProblemsForBelt_resume (Resolved True (Some names)) t)) =
        (''-- Select a problem --'', '''') # map (\<lambda>p. (p, p)) names \<and>
      length (deleteProblemOptions (snd (fetchProblemsForBelt_resume (Resolved True (Some names)) t))) =
        length names + 1 \<and>
      deleteProblemDisabled (snd (fetchProblemsForBelt_resume (Resolved True (Some names)) t)) = False \<and>
      deleteBtnDisabled (snd (fetchProblemsForBelt_resume (Resolved True (Some names)) t)) = False) \<and>
   fst (fetchProblemsForBelt_resume (Resolved True (Some [])) t) = Returned \<and>
   deleteProblemOptions (snd (fetchProblemsForBelt_resume (Resolved True (Some [])) t)) =
     [(''-- No problems found --'', '''')] \<and>
   deleteProblemDisabled (snd (fetchProblemsForBelt_resume (Resolved True (Some [])) t)) =
     deleteProblemDisabled t \<and>
   deleteBtnDisabled (snd (fetchProblemsForBelt_resume (Resolved True (Some [])) t)) =
     deleteBtnDisabled t \<and>
   fst (fetchProblemsForBelt_resume (Resolved False body) t) = Returned \<and>
   deleteProblemOptions (snd (fetchProblemsForBelt_resume (Resolved False body) t)) =
     [(''-- Error loading --'', '''')] \<and>
   deleteProblemDisabled (snd (fetchProblemsForBelt_resume (Resolved False body) t)) =
     deleteProblemDisabled t \<and>
   deleteBtnDisabled (snd (fetchProblemsForBelt_resume (Resolved False body) t)) =
     deleteBtnDisabled t \<and>
   (deleteProblemDisabled t \<and> \<not> deleteProblemDisabled (snd (fetchProblemsForBelt_resume fo t)) \<longrightarrow>
      (\<exists>ns. ns \<noteq> [] \<and> fo = Resolved True (Some ns))) \<and>
   (deleteBtnDisabled t \<and> \<not> deleteBtnDisabled (snd (fetchProblemsForBelt_resume fo t)) \<longrightarrow>
      (\<exists>ns. ns \<noteq> [] \<and> fo = Resolved True (Some ns))) \<and>
   fetchProblemsForBelt belt fo s =
     fetchProblemsForBelt_resume fo (fetchProblemsForBelt_start belt s) \<and>
   deleteProblemDisabled (snd (fetchProblemsForBelt belt (Resolved True (Some [])) s)) \<and>
   deleteBtnDisabled (snd (fetchProblemsForBelt belt (Resolved True (Some [])) s)) \<and>
   deleteProblemDisabled (snd (fetchProblemsForBelt belt (Resolved False body) s)) \<and>
   deleteBtnDisabled (snd (fetchProblemsForBelt belt (Resolved False body) s)) \<and>
   (\<not> deleteProblemDisabled (snd (fetchProblemsForBelt belt fo s)) \<longrightarrow>
      (\<exists>ns. ns \<noteq> [] \<and> fo = Resolved True (Some ns))) \<and>
   (\<not> deleteBtnDisabled (snd (fetchProblemsForBelt belt fo s)) \<longrightarrow>
      (\<exists>ns. ns \<noteq> [] \<and> fo = Resolved True (Some ns))) \<and>
   requests (snd (fetchProblemsForBelt belt fo s)) = requests s @ [GetProblems belt]"
  by (cases fo) (auto simp add: fetch_defs split: option.splits)

theorem fetchProblemsForBelt_outcomes_witness:
  "deleteProblemOptions (snd (fetchProblemsForBelt ''white''
      (Resolved True (Some [''p1'', ''p2''])) sample_ui)) =
     [(''-- Select a problem --'', ''''), (''p1'', ''p1''), (''p2'', ''p2'')] \<and>
   length (deleteProblemOptions (snd (fetchProblemsForBelt ''white''
      (Resolved True (Some [''p1'', ''p2''])) sample_ui))) = 3 \<and>
   deleteProblemDisabled (snd (fetchProblemsForBelt ''white''
      (Resolved True (Some [''p1'', ''p2''])) sample_ui)) = False \<and>
   deleteBtnDisabled (snd (fetchProblemsForBelt ''white''
      (Resolved True (Some [''p1'', ''p2''])) sample_ui)) = False \<and>
   deleteProblemDisabled (snd (fetchProblemsForBelt_resume (Resolved True (Some []))
      (fetchProblemsForBelt_start ''white'' sample_ui)))"
  using fetchProblemsForBelt_outcomes [of "''white''" sample_ui "[''p1'', ''p2'']"
      "fetchProblemsForBelt_start ''white'' sample_ui" None
      "Resolved True (Some [''p1'', ''p2''])"]
  by simp

text \<open>
  C4 as stated fails for a call that overlaps another. On the sample page the belt is
  changed to \<open>white\<close> and then to \<open>black\<close> before either request is answered;
  \<open>white\<close> is answered with one name and \<open>black\<close> with the empty list. The call for
  \<open>black\<close> got an ok answer with an empty list, yet it ends with the "No problems found"
  placeholder in a selector that is enabled, next to an enabled delete button.
\<close>

theorem fetchProblemsForBelt_overlapped_counterexample:
  "deleteProblemOptions (fetchProblemsForBelt_overlapped ''white'' ''black''
      (Resolved True (Some [''a1''])) (Resolved True (Some [])) sample_ui) =
     [(''-- No problems found --'', '''')] \<and>
   deleteProblemDisabled (fetchProblemsForBelt_overlapped ''white'' ''black''
      (Resolved True (Some [''a1''])) (Resolved True (Some [])) sample_ui) = False \<and>
   deleteBtnDisabled (fetchProblemsForBelt_overlapped ''white'' ''black''
      (Resolved True (Some [''a1''])) (Resolved True (Some [])) sample_ui) = False"
  by (simp add: fetchProblemsForBelt_overlapped_def fetchProblemsForBelt_start_def
      fetchProblemsForBelt_resume_def response_json_def Let_def)

text \<open>
  C10. When the belt selector changes to the empty value the listener does nothing: the
  state, with the request log, the delete-problem selector and the delete button, is what
  it was. The listener sends a request, the one of \<open>fetchProblemsForBelt\<close> for the chosen
  belt, exactly when the value is not empty.
\<close>

theorem deleteBeltSelector_change_empty:
  "deleteBeltSelector_change '''' s = s \<and>
   requests (deleteBeltSelector_change v s) =
     (if v = [] then requests s else requests s @ [GetProblems v])"
  by (simp add: deleteBeltSelector_change_def fetchProblemsForBelt_start_def)

text \<open>
  C8. When the user declines the confirmation, the delete handler returns with the state
  unchanged, whatever the network would have answered: the request log, the status
  messages, the busy flag and the selectors are as before.
\<close>

theorem deleteSubmit_declined:
  "deleteSubmit False fo s = (Returned, s)"
  by (simp add: deleteSubmit_def)

text \<open>
  C6. A confirmed delete submission sends exactly one delete request, carrying the form's
  belt and (the selector being enabled) the chosen problem, with the delete button's busy
  flag set while the request is pending; once the request is answered the flag is cleared.
  When the answer carries a message, it is displayed, as a success on a 2xx status and as
  an error otherwise; on 2xx exactly one refresh request for the selected belt follows the
  delete request, and on a non-2xx status no further request is sent.
\<close>

theorem deleteSubmit_confirmed:
  assumes "body = Some \<lparr>message = m\<rparr>"
  shows "requests (deleteSubmit_start s) = requests s @ [PostDelete (deleteFormData s)] \<and>
         deleteBusy (deleteSubmit_start s) \<and>
         deleteSubmit True fo s = deleteSubmit_resume fo (deleteSubmit_start s) \<and>
         deleteBusy (snd (deleteSubmit True (Resolved status any) s)) = False \<and>
         fst (deleteSubmit True (Resolved True body) s) = Returned \<and>
         statusMessages (snd (deleteSubmit True (Resolved True body) s)) =
           statusMessages s @ [(m, ''success'')] \<and>
         requests (snd (deleteSubmit True (Resolved True body) s)) =
           requests s @ [PostDelete (deleteFormData s), GetProblems (deleteBelt s)] \<and>
         fst (deleteSubmit True (Resolved False body) s) = Returned \<and>
         statusMessages (snd (deleteSubmit True (Resolved False body) s)) =
           statusMessages s @ [(m, ''error'')] \<and>
         requests (snd (deleteSubmit True (Resolved False body) s)) =
           requests s @ [PostDelete (deleteFormData s)] \<and>
         (\<not> deleteProblemDisabled s \<longrightarrow>
            deleteFormData s =
              \<lparr>del_belt = deleteBelt s, del_problem = Some (deleteProblemValue s)\<rparr>)"
  using assms by (simp add: delete_defs deleteFormData_def split: option.split)

theorem deleteSubmit_confirmed_witness:
  "requests (snd (deleteSubmit True (Resolved True (Some \<lparr>message = ''Deleted.''\<rparr>))
      sample_delete_ui)) =
     [PostDelete \<lparr>del_belt = ''white'', del_problem = Some ''p1''\<rparr>, GetProblems ''white''] \<and>
   statusMessages (snd (deleteSubmit True (Resolved True (Some \<lparr>message = ''Deleted.''\<rparr>))
      sample_delete_ui)) = [(''Deleted.'', ''success'')] \<and>
   requests (snd (deleteSubmit True (Resolved False (Some \<lparr>message = ''No such folder.''\<rparr>))
      sample_delete_ui)) =
     [PostDelete \<lparr>del_belt = ''white'', del_problem = Some ''p1''\<rparr>] \<and>
   deleteBusy (snd (deleteSubmit True (Resolved False (Some \<lparr>message = ''No such folder.''\<rparr>))
      sample_delete_ui)) = False"
  using deleteSubmit_confirmed [OF refl, of sample_delete_ui Rejected False
      "Some \<lparr>message = ''No such folder.''\<rparr>" "''Deleted.''"]
    deleteSubmit_confirmed [OF refl, of sample_delete_ui Rejected False
      "Some \<lparr>message = ''No such folder.''\<rparr>" "''No such folder.''"]
  by (simp add: sample_delete_ui_def sample_ui_def)

end
